theory Spec2Isabelle
  imports Main
begin

section \<open>The session model (src/models/session.ts)\<close>

subsection \<open>JavaScript values the class relies on\<close>

text \<open>
  A JavaScript \<^verbatim>\<open>Date\<close> holds a time value: an integral number of milliseconds since
  the epoch, or NaN (an "Invalid Date"). \<open>Date t\<close> is the valid date with time value \<open>t\<close>.
\<close>

datatype date = Date int | InvalidDate

text \<open>
  \<^verbatim>\<open>new Date(n)\<close> for a number \<open>n\<close> applies TimeClip: a magnitude beyond 8.64e15 ms gives
  an Invalid Date.
\<close>

definition TimeClip :: "int \<Rightarrow> date" where
  "TimeClip t = (if \<bar>t\<bar> \<le> 8640000000000000 then Date t else InvalidDate)"

text \<open>
  \<^verbatim>\<open>a > b\<close> on two Date objects compares their time values as numbers; every comparison
  with NaN is false.
\<close>

fun date_gt :: "date \<Rightarrow> date \<Rightarrow> bool" where
  "date_gt (Date a) (Date b) = (b < a)"
| "date_gt _ _ = False"

text \<open>
  Truthiness of an optional string, as \<^verbatim>\<open>!!x\<close> and \<^verbatim>\<open>x || y\<close> see it: \<^verbatim>\<open>undefined\<close>
  and the empty string are falsy, every other string is truthy.
\<close>

fun truthy :: "string option \<Rightarrow> bool" where
  "truthy None = False"
| "truthy (Some v) = (v \<noteq> [])"

text \<open>
  The values a property of an untyped JSON object is read as by \<^verbatim>\<open>new Date(x)\<close>:
  absent, a string, or an (integral) number. Strings are parsed by the runtime's date
  parser, which is a parameter of the model.
\<close>

datatype jsval = JUndefined | JString string | JNumber int

fun new_Date :: "(string \<Rightarrow> date) \<Rightarrow> jsval \<Rightarrow> date" where
  "new_Date parse JUndefined = InvalidDate"
| "new_Date parse (JString str) = parse str"
| "new_Date parse (JNumber n) = TimeClip n"

text \<open>The exceptions the modelled code can raise.\<close>

datatype js_error = RangeError

text \<open>
  \<^verbatim>\<open>d.toISOString()\<close> throws a RangeError on an Invalid Date; on a valid one it renders
  the time value with the runtime's formatter \<open>fmt\<close>, a parameter of the model.
\<close>

fun toISOString :: "(int \<Rightarrow> string) \<Rightarrow> date \<Rightarrow> js_error + string" where
  "toISOString fmt (Date t) = Inr (fmt t)"
| "toISOString fmt InvalidDate = Inl RangeError"

subsection \<open>SessionState and Session\<close>

datatype SessionState = CREATED | UPLOADED | ANALYZING | COMPLETED | ERROR

text \<open>
  The fields of the class. \<open>fileName\<close> and \<open>language\<close> are declared \<^verbatim>\<open>string\<close> but are
  assigned from optional properties with a non-null assertion, so at run time they can be
  \<^verbatim>\<open>undefined\<close>. \<open>analysisResult\<close> has type \<^verbatim>\<open>any\<close>: its payload type is a parameter.
\<close>

record 'a Session =
  sessionID :: string
  regSessionI :: "string option"
  fileName :: "string option"
  language :: "string option"
  state :: SessionState
  createdAt :: date
  expiresAt :: date
  filePath :: "string option"
  analysisResult :: "'a option"

text \<open>The constructor's argument, a \<^verbatim>\<open>Partial<Session>\<close>: every property is optional.\<close>

record 'a Partial_Session =
  data_sessionID :: "string option"
  data_regSessionI :: "string option"
  data_fileName :: "string option"
  data_language :: "string option"
  data_state :: "SessionState option"
  data_createdAt :: "date option"
  data_expiresAt :: "date option"
  data_filePath :: "string option"
  data_analysisResult :: "'a option"

text \<open>
  What the constructor reads from the outside world: the result of \<^verbatim>\<open>uuidv4()\<close>, the
  clock reading taken by \<^verbatim>\<open>new Date()\<close> and the clock reading taken afterwards by
  \<^verbatim>\<open>Date.now()\<close>. They are two separate reads of the clock.
\<close>

record world =
  uuidv4 :: string
  clock_new_Date :: int
  clock_Date_now :: int

text \<open>
  The constructor. It has no \<^verbatim>\<open>throw\<close> and calls no validation, so it is a total
  function to a record. \<open>regSessionI\<close> and \<open>analysisResult\<close> are never assigned.
\<close>

definition constructor :: "world \<Rightarrow> 'a Partial_Session \<Rightarrow> 'a Session" where
  "constructor w data =
     \<lparr> sessionID = (case data_sessionID data of
                      Some v \<Rightarrow> if truthy (Some v) then v else uuidv4 w
                    | None \<Rightarrow> uuidv4 w),
       regSessionI = None,
       fileName = data_fileName data,
       language = data_language data,
       state = (case data_state data of Some st \<Rightarrow> st | None \<Rightarrow> CREATED),
       createdAt = (case data_createdAt data of Some d \<Rightarrow> d | None \<Rightarrow> Date (clock_new_Date w)),
       expiresAt = (case data_expiresAt data of Some d \<Rightarrow> d
                    | None \<Rightarrow> TimeClip (clock_Date_now w + 24 * 60 * 60 * 1000)),
       filePath = data_filePath data,
       analysisResult = None \<rparr>"

text \<open>\<^verbatim>\<open>validate()\<close>: \<^verbatim>\<open>!!this.sessionID && !!this.fileName && !this.language\<close>.\<close>

definition validate :: "'a Session \<Rightarrow> bool" where
  "validate s = (sessionID s \<noteq> [] \<and> truthy (fileName s) \<and> \<not> truthy (language s))"

text \<open>
  \<^verbatim>\<open>isExpired()\<close>: \<^verbatim>\<open>new Date() > this.expiresAt\<close>. The method reads the clock itself;
  \<open>now\<close> is that reading.
\<close>

definition isExpired :: "int \<Rightarrow> 'a Session \<Rightarrow> bool" where
  "isExpired now s = date_gt (Date now) (expiresAt s)"

text \<open>\<^verbatim>\<open>updateState(newState)\<close>: one unconditional assignment.\<close>

definition updateState :: "'a Session \<Rightarrow> SessionState \<Rightarrow> 'a Session" where
  "updateState s newState = s\<lparr>state := newState\<rparr>"

text \<open>
  The plain object \<^verbatim>\<open>toJSON()\<close> returns and \<^verbatim>\<open>fromJSON(json)\<close> reads. \<^verbatim>\<open>fromJSON\<close> takes
  \<^verbatim>\<open>any\<close>; the model covers objects whose properties, where present, have the types
  the constructor expects, with the two timestamps as raw values for \<^verbatim>\<open>new Date(x)\<close>.
\<close>

record 'a json =
  json_sessionID :: "string option"
  json_regSessionI :: "string option"
  json_fileName :: "string option"
  json_language :: "string option"
  json_state :: "SessionState option"
  json_createdAt :: jsval
  json_expiresAt :: jsval
  json_filePath :: "string option"
  json_analysisResult :: "'a option"

text \<open>
  \<^verbatim>\<open>toJSON()\<close> writes six properties: sessionID, fileName, language, state and the two
  timestamps as ISO strings (\<open>createdAt\<close> is rendered first). Nothing else is written.
\<close>

definition toJSON :: "(int \<Rightarrow> string) \<Rightarrow> 'a Session \<Rightarrow> js_error + 'a json" where
  "toJSON fmt s =
     (case toISOString fmt (createdAt s) of
        Inl err \<Rightarrow> Inl err
      | Inr c \<Rightarrow>
          (case toISOString fmt (expiresAt s) of
             Inl err \<Rightarrow> Inl err
           | Inr e \<Rightarrow>
               Inr \<lparr> json_sessionID = Some (sessionID s),
                     json_regSessionI = None,
                     json_fileName = fileName s,
                     json_language = language s,
                     json_state = Some (state s),
                     json_createdAt = JString c,
                     json_expiresAt = JString e,
                     json_filePath = None,
                     json_analysisResult = None \<rparr>))"

text \<open>
  \<^verbatim>\<open>fromJSON(json)\<close>: the constructor applied to the spread of \<open>json\<close> with \<open>createdAt\<close>
  and \<open>expiresAt\<close> replaced by \<^verbatim>\<open>new Date(json.createdAt)\<close> and \<^verbatim>\<open>new Date(json.expiresAt)\<close>.
\<close>

definition fromJSON :: "(string \<Rightarrow> date) \<Rightarrow> world \<Rightarrow> 'a json \<Rightarrow> 'a Session" where
  "fromJSON parse w j =
     constructor w
       \<lparr> data_sessionID = json_sessionID j,
         data_regSessionI = json_regSessionI j,
         data_fileName = json_fileName j,
         data_language = json_language j,
         data_state = json_state j,
         data_createdAt = Some (new_Date parse (json_createdAt j)),
         data_expiresAt = Some (new_Date parse (json_expiresAt j)),
         data_filePath = json_filePath j,
         data_analysisResult = json_analysisResult j \<rparr>"

subsection \<open>The runtime's ISO 8601 formatter and parser\<close>

text \<open>
  \<open>toJSON\<close> and \<open>fromJSON\<close> take the runtime's \<^verbatim>\<open>Date.prototype.toISOString\<close> and date
  parser as parameters. The following instance, after ECMAScript, is the one the
  round-trip property is proved with: \<^verbatim>\<open>YYYY-MM-DDTHH:mm:ss.sssZ\<close> in UTC, with a signed
  six-digit year outside 0..9999. The parser reads exactly this format and gives an
  Invalid Date on anything else; real engines accept further formats (a date alone, hour
  24) and refuse the year -000000, which this parser reads as 0. It is applied below
  only to what the formatter returns.
\<close>

fun decimal :: "nat \<Rightarrow> int \<Rightarrow> string" where
  "decimal 0 n = []"
| "decimal (Suc k) n = decimal k (n div 10) @ [char_of (48 + n mod 10)]"

text \<open>
  Days since the epoch to a calendar date. Within a 400-year era that starts on 1 March,
  \<open>year_of_era\<close> splits the day of the era into centuries, four-year cycles and years
  (the last day of a cycle and of the era is the leap day), and \<open>month_of_year\<close> splits
  the day of such a year into month and day of month.
\<close>

definition year_of_era :: "int \<Rightarrow> int \<times> int" where
  "year_of_era doe =
     (let c = min (doe div 36524) 3;
          doc = doe - 36524 * c;
          q = doc div 1461;
          doq = doc mod 1461;
          yq = min (doq div 365) 3
      in (100 * c + 4 * q + yq, doq - 365 * yq))"

definition month_of_year :: "int \<Rightarrow> int \<times> int" where
  "month_of_year doy =
     (let mp = (5 * doy + 2) div 153
      in (mp, doy - (153 * mp + 2) div 5 + 1))"

definition civil_from_days :: "int \<Rightarrow> int \<times> int \<times> int" where
  "civil_from_days z =
     (case year_of_era ((z + 719468) mod 146097) of (yoe, doy) \<Rightarrow>
        case month_of_year doy of (mp, d) \<Rightarrow>
          (yoe + 400 * ((z + 719468) div 146097) + (if mp < 10 then 0 else 1),
           if mp < 10 then mp + 3 else mp - 9, d))"

definition days_from_civil :: "int \<Rightarrow> int \<Rightarrow> int \<Rightarrow> int" where
  "days_from_civil y m d =
     (let y' = (if m \<le> 2 then y - 1 else y);
          era = y' div 400;
          yoe = y' mod 400;
          doy = (153 * (if m > 2 then m - 3 else m + 9) + 2) div 5 + d - 1;
          doe = yoe * 365 + yoe div 4 - yoe div 100 + doy
      in era * 146097 + doe - 719468)"

definition iso_year :: "int \<Rightarrow> string" where
  "iso_year y = (if 0 \<le> y \<and> y \<le> 9999 then decimal 4 y
                 else (if y < 0 then ''-'' else ''+'') @ decimal 6 \<bar>y\<bar>)"

definition iso_date :: "int \<Rightarrow> string" where
  "iso_date days = (case civil_from_days days of (y, m, d) \<Rightarrow>
     iso_year y @ ''-'' @ decimal 2 m @ ''-'' @ decimal 2 d)"

definition iso_time :: "int \<Rightarrow> string" where
  "iso_time r = decimal 2 (r div 3600000) @ '':'' @ decimal 2 (r div 60000 mod 60) @ '':''
         @ decimal 2 (r div 1000 mod 60) @ ''.'' @ decimal 3 (r mod 1000)"

definition Date_toISOString :: "int \<Rightarrow> string" where
  "Date_toISOString t = iso_date (t div 86400000) @ ''T'' @ iso_time (t mod 86400000) @ ''Z''"

definition isDigit :: "char \<Rightarrow> bool" where
  "isDigit c = (48 \<le> (of_char c :: int) \<and> (of_char c :: int) \<le> 57)"

definition digitsValue :: "string \<Rightarrow> int" where
  "digitsValue z = foldl (\<lambda>acc c. 10 * acc + (of_char c - 48)) 0 z"

definition number :: "string \<Rightarrow> int option" where
  "number z = (if z \<noteq> [] \<and> list_all isDigit z then Some (digitsValue z) else None)"

definition parse_fields :: "int \<Rightarrow> string \<Rightarrow> string \<Rightarrow> date" where
  "parse_fields sign ys rest =
     (if length rest = 20 \<and> rest ! 0 = CHR ''-'' \<and> rest ! 3 = CHR ''-'' \<and> rest ! 6 = CHR ''T''
         \<and> rest ! 9 = CHR '':'' \<and> rest ! 12 = CHR '':'' \<and> rest ! 15 = CHR ''.'' \<and> rest ! 19 = CHR ''Z''
      then
        (case (number ys, number (take 2 (drop 1 rest)), number (take 2 (drop 4 rest)),
               number (take 2 (drop 7 rest)), number (take 2 (drop 10 rest)),
               number (take 2 (drop 13 rest)), number (take 3 (drop 16 rest))) of
           (Some y, Some m, Some d, Some h, Some mi, Some sec, Some ms) \<Rightarrow>
             if 1 \<le> m \<and> m \<le> 12 \<and> 1 \<le> d \<and> d \<le> 31 \<and> h < 24 \<and> mi < 60 \<and> sec < 60
             then TimeClip (days_from_civil (sign * y) m d * 86400000
                            + h * 3600000 + mi * 60000 + sec * 1000 + ms)
             else InvalidDate
         | _ \<Rightarrow> InvalidDate)
      else InvalidDate)"

definition Date_parse :: "string \<Rightarrow> date" where
  "Date_parse str =
     (case str of
        [] \<Rightarrow> InvalidDate
      | c # r \<Rightarrow>
          if c = CHR ''+'' then parse_fields 1 (take 6 r) (drop 6 r)
          else if c = CHR ''-'' then parse_fields (- 1) (take 6 r) (drop 6 r)
          else parse_fields 1 (take 4 str) (drop 4 str))"

text \<open>
  The transition table as the specification words it: Created to Uploaded or Error,
  Uploaded to Analyzing or Error, Analyzing to Completed or Error, nothing out of
  Completed or Error. The source holds no such table; this definition only serves to
  compare \<open>updateState\<close> with it.
\<close>

fun spec_TransitionPolicy :: "SessionState \<Rightarrow> SessionState \<Rightarrow> bool" where
  "spec_TransitionPolicy CREATED t = (t = UPLOADED \<or> t = ERROR)"
| "spec_TransitionPolicy UPLOADED t = (t = ANALYZING \<or> t = ERROR)"
| "spec_TransitionPolicy ANALYZING t = (t = COMPLETED \<or> t = ERROR)"
| "spec_TransitionPolicy COMPLETED t = False"
| "spec_TransitionPolicy ERROR t = False"

section \<open>The configuration loader (src/config/app.config.ts)\<close>

text \<open>
  A JavaScript number as the loader produces it: an integer of magnitude at most 2^53
  (every such integer is a double), negative zero, NaN, or a double beyond that range.
  Beyond 2^53 the runtime returns the double nearest to the digits' value, or Infinity;
  the model does not compute it and says \<open>BeyondExact\<close>.
\<close>

datatype jsnumber = Number int | NegativeZero | NaN | BeyondExact

text \<open>\<^verbatim>\<open>process.env\<close>: a variable is unset or holds a string.\<close>

type_synonym process_env = "string \<Rightarrow> string option"

text \<open>
  The number for a sign and the value of a run of digits: the signed value when the
  magnitude is at most 2^53, negative zero for a minus sign before zero.
\<close>

definition integerNumber :: "int \<Rightarrow> int \<Rightarrow> jsnumber" where
  "integerNumber sign n =
     (if 9007199254740992 < n then BeyondExact
      else if sign < 0 \<and> n = 0 then NegativeZero
      else Number (sign * n))"

text \<open>
  \<^verbatim>\<open>parseInt(value, 10)\<close>: leading white space is skipped (the ASCII white space and line
  terminators are modelled), one sign is read, then the longest run of decimal digits;
  no digit gives NaN and whatever follows the digits is ignored.
\<close>

definition isWhiteSpace :: "char \<Rightarrow> bool" where
  "isWhiteSpace c = (of_char c \<in> {9, 10, 11, 12, 13, 32 :: nat})"

definition parseInt10 :: "string \<Rightarrow> jsnumber" where
  "parseInt10 str =
     (let s = dropWhile isWhiteSpace str;
          sign = (case s of c # _ \<Rightarrow> if c = CHR ''-'' then - 1 else 1 | [] \<Rightarrow> 1);
          body = (case s of c # r \<Rightarrow> if c = CHR ''-'' \<or> c = CHR ''+'' then r else s | [] \<Rightarrow> s);
          z = takeWhile isDigit body
      in if z = [] then NaN else integerNumber sign (digitsValue z))"

text \<open>
  \<^verbatim>\<open>getEnvNumber(key, defaultValue)\<close>: \<^verbatim>\<open>value ? parseInt(value, 10) : defaultValue\<close>.
  An unset variable and the empty string are falsy.
\<close>

definition getEnvNumber :: "process_env \<Rightarrow> string \<Rightarrow> int \<Rightarrow> jsnumber" where
  "getEnvNumber env key defaultValue =
     (case env key of
        Some v \<Rightarrow> if truthy (Some v) then parseInt10 v else Number defaultValue
      | None \<Rightarrow> Number defaultValue)"

text \<open>The two session properties of \<open>appConfig\<close>.\<close>

definition sessionTimeoutHours :: "process_env \<Rightarrow> jsnumber" where
  "sessionTimeoutHours env = getEnvNumber env ''SESSION_TIMEOUT_HOURS'' 24"

definition sessionCleanupIntervalHours :: "process_env \<Rightarrow> jsnumber" where
  "sessionCleanupIntervalHours env = getEnvNumber env ''SESSION_CLEANUP_INTERVAL_HOURS'' 1"

section \<open>Concrete inputs\<close>

text \<open>
  The composition the round-trip property is about: \<open>fromJSON\<close> applied to what
  \<open>toJSON\<close> returned, or the error \<open>toJSON\<close> raised.
\<close>

definition roundtrip ::
  "(int \<Rightarrow> string) \<Rightarrow> (string \<Rightarrow> date) \<Rightarrow> world \<Rightarrow> 'a Session \<Rightarrow> js_error + 'a Session" where
  "roundtrip fmt parse w s =
     (case toJSON fmt s of Inl err \<Rightarrow> Inl err | Inr j \<Rightarrow> Inr (fromJSON parse w j))"

text \<open>The argument of \<^verbatim>\<open>new Session({fileName: f, language: l})\<close>: no override.\<close>

definition names :: "string \<Rightarrow> string \<Rightarrow> 'a Partial_Session" where
  "names f l =
     \<lparr> data_sessionID = None, data_regSessionI = None, data_fileName = Some f,
       data_language = Some l, data_state = None, data_createdAt = None,
       data_expiresAt = None, data_filePath = None, data_analysisResult = None \<rparr>"

text \<open>
  Two worlds: in \<open>world0\<close> both clock reads of the constructor fall in the same
  millisecond, in \<open>world1\<close> the clock ticks between them.
\<close>

definition world0 :: world where
  "world0 = \<lparr> uuidv4 = ''9b2d6c1e-5f0a-4c3b-8e7d-1a2b3c4d5e6f'',
              clock_new_Date = 1700000000000, clock_Date_now = 1700000000000 \<rparr>"

definition world1 :: world where
  "world1 = \<lparr> uuidv4 = ''9b2d6c1e-5f0a-4c3b-8e7d-1a2b3c4d5e6f'',
              clock_new_Date = 1700000000000, clock_Date_now = 1700000000001 \<rparr>"

definition session0 :: "string Session" where
  "session0 = constructor world0 (names ''main.py'' ''python'')"

text \<open>
  A session taken through the pipeline: uploaded with a file path, analysed, completed
  with a result.
\<close>

definition session_done :: "string Session" where
  "session_done =
     (updateState
        (updateState ((updateState session0 UPLOADED)\<lparr>filePath := Some ''/tmp/x''\<rparr>) ANALYZING)
        COMPLETED)
       \<lparr>analysisResult := Some ''report''\<rparr>"

text \<open>Rehydration input whose expiry lies before its creation.\<close>

definition rehydrated :: "string Partial_Session" where
  "rehydrated = (names ''main.py'' ''python'')
     \<lparr>data_createdAt := Some (Date 1700000000000), data_expiresAt := Some (Date 1600000000000)\<rparr>"

definition json_rehydrated :: "string json" where
  "json_rehydrated =
     \<lparr> json_sessionID = Some ''9b2d6c1e-5f0a-4c3b-8e7d-1a2b3c4d5e6f'', json_regSessionI = None,
       json_fileName = Some ''main.py'', json_language = Some ''python'',
       json_state = Some UPLOADED, json_createdAt = JNumber 1700000000000,
       json_expiresAt = JNumber 1600000000000, json_filePath = Some ''/tmp/x'',
       json_analysisResult = Some ''report'' \<rparr>"

text \<open>Environments for the configuration loader.\<close>

definition env_negative :: process_env where
  "env_negative = Map.empty(''SESSION_TIMEOUT_HOURS'' \<mapsto> ''-5'',
                            ''SESSION_CLEANUP_INTERVAL_HOURS'' \<mapsto> ''-5'')"

definition env_zero :: process_env where
  "env_zero = Map.empty(''SESSION_TIMEOUT_HOURS'' \<mapsto> ''0'',
                        ''SESSION_CLEANUP_INTERVAL_HOURS'' \<mapsto> ''0'')"

definition env_negative_zero :: process_env where
  "env_negative_zero = Map.empty(''SESSION_TIMEOUT_HOURS'' \<mapsto> ''-0'',
                                 ''SESSION_CLEANUP_INTERVAL_HOURS'' \<mapsto> ''-0'')"

definition env_unset :: process_env where
  "env_unset = Map.empty"

section \<open>Auxiliary facts\<close>

lemma session0_fields:
  "sessionID session0 = ''9b2d6c1e-5f0a-4c3b-8e7d-1a2b3c4d5e6f''"
  "fileName session0 = Some ''main.py''" "language session0 = Some ''python''"
  "state session0 = CREATED" "createdAt session0 = Date 1700000000000"
  "expiresAt session0 = Date 1700086400000" "filePath session0 = None"
  "analysisResult session0 = None" "regSessionI session0 = None"
  by (simp_all add: session0_def constructor_def names_def world0_def TimeClip_def)

lemma session_done_fields:
  "sessionID session_done = ''9b2d6c1e-5f0a-4c3b-8e7d-1a2b3c4d5e6f''"
  "fileName session_done = Some ''main.py''" "language session_done = Some ''python''"
  "state session_done = COMPLETED" "createdAt session_done = Date 1700000000000"
  "expiresAt session_done = Date 1700086400000" "filePath session_done = Some ''/tmp/x''"
  "analysisResult session_done = Some ''report''" "regSessionI session_done = None"
  by (simp_all add: session_done_def updateState_def session0_fields)

lemma iso_created: "Date_toISOString 1700000000000 = ''2023-11-14T22:13:20.000Z''"
  by code_simp

lemma iso_expires: "Date_toISOString 1700086400000 = ''2023-11-15T22:13:20.000Z''"
  by code_simp

lemma parse_created: "Date_parse ''2023-11-14T22:13:20.000Z'' = Date 1700000000000"
  by code_simp

lemma parse_expires: "Date_parse ''2023-11-15T22:13:20.000Z'' = Date 1700086400000"
  by code_simp

text \<open>The calendar conversions are inverse to each other.\<close>

lemma year_of_era_inverse:
  assumes "0 \<le> doe" and "doe \<le> 146096" and "year_of_era doe = (yoe, doy)"
  shows "0 \<le> yoe \<and> yoe \<le> 399 \<and> 0 \<le> doy \<and> doy \<le> 365
         \<and> yoe * 365 + yoe div 4 - yoe div 100 + doy = doe"
proof -
  define a where "a = doe div 36524"
  define r where "r = doe mod 36524"
  define c where "c = min a 3"
  define doc where "doc = doe - 36524 * c"
  define q where "q = doc div 1461"
  define doq where "doq = doc mod 1461"
  define k where "k = doq div 365"
  define t where "t = doq mod 365"
  define yq where "yq = min k 3"
  have yoe: "yoe = 100 * c + 4 * q + yq" and doy: "doy = doq - 365 * yq"
    using assms(3)
    by (simp_all add: year_of_era_def Let_def a_def c_def doc_def q_def doq_def k_def yq_def)
  have ar: "doe = 36524 * a + r" "0 \<le> r" "r < 36524"
    by (simp_all add: a_def r_def)
  have a: "0 \<le> a" "a \<le> 4"
    using assms(1,2) ar by linarith+
  have c: "0 \<le> c" "c \<le> 3"
    using a by (simp_all add: c_def)
  have doc: "0 \<le> doc" "doc \<le> 36524"
    using assms(1,2) ar a unfolding doc_def c_def min_def by (auto split: if_splits)
  have qd: "doc = 1461 * q + doq" "0 \<le> doq" "doq < 1461"
    by (simp_all add: q_def doq_def)
  have q: "0 \<le> q" "q \<le> 24"
    using doc qd by linarith+
  have kt: "doq = 365 * k + t" "0 \<le> t" "t < 365"
    by (simp_all add: k_def t_def)
  have k: "0 \<le> k" "k \<le> 4"
    using qd kt by linarith+
  have yq: "0 \<le> yq" "yq \<le> 3"
    using k by (simp_all add: yq_def)
  have doy_b: "0 \<le> doy" "doy \<le> 365"
    using qd kt k unfolding doy yq_def min_def by (auto split: if_splits)
  have d4: "yoe div 4 = 25 * c + q"
    by (rule int_div_pos_eq [where r = yq]) (use yq yoe in simp_all)
  have d100: "yoe div 100 = c"
    by (rule int_div_pos_eq [where r = "4 * q + yq"]) (use yq q yoe in simp_all)
  have "yoe * 365 + yoe div 4 - yoe div 100 + doy = doe"
    unfolding d4 d100 unfolding yoe doy using qd(1) doc_def by simp
  moreover have "0 \<le> yoe" "yoe \<le> 399"
    using c q yq unfolding yoe by simp_all
  ultimately show ?thesis using doy_b by simp
qed

lemma month_of_year_inverse:
  assumes "0 \<le> doy" and "doy \<le> 365" and "month_of_year doy = (mp, d)"
  shows "0 \<le> mp \<and> mp \<le> 11 \<and> 1 \<le> d \<and> d \<le> 31 \<and> (153 * mp + 2) div 5 + d - 1 = doy"
proof -
  define rr where "rr = (5 * doy + 2) mod 153"
  define u where "u = (153 * mp + 2) div 5"
  define v where "v = (153 * mp + 2) mod 5"
  have mp: "mp = (5 * doy + 2) div 153" and d: "d = doy - u + 1"
    using assms(3) by (auto simp add: month_of_year_def Let_def u_def)
  have m1: "5 * doy + 2 = 153 * mp + rr" "0 \<le> rr" "rr < 153"
    by (simp_all add: mp rr_def)
  have m2: "153 * mp + 2 = 5 * u + v" "0 \<le> v" "v < 5"
    by (simp_all add: u_def v_def)
  have b: "0 \<le> mp" "mp \<le> 11"
    using assms(1,2) m1 by linarith+
  have "1 \<le> d" "d \<le> 31"
    using m1 m2 unfolding d by linarith+
  then show ?thesis using b d by (simp add: u_def)
qed

lemma days_from_civil_inverse:
  assumes "civil_from_days z = (y, m, d)"
  shows "days_from_civil y m d = z \<and> 1 \<le> m \<and> m \<le> 12 \<and> 1 \<le> d \<and> d \<le> 31"
proof -
  define era where "era = (z + 719468) div 146097"
  define doe where "doe = (z + 719468) mod 146097"
  obtain yoe doy where yd: "year_of_era doe = (yoe, doy)" by (cases "year_of_era doe")
  obtain mp d' where md: "month_of_year doy = (mp, d')" by (cases "month_of_year doy")
  have doe: "0 \<le> doe" "doe \<le> 146096"
    by (simp_all add: doe_def zle_diff1_eq [symmetric])
  note Y = year_of_era_inverse [OF doe yd]
  from Y have doy: "0 \<le> doy" "doy \<le> 365" by simp_all
  note M = month_of_year_inverse [OF doy md]
  have y: "y = yoe + 400 * era + (if mp < 10 then 0 else 1)"
    and m: "m = (if mp < 10 then mp + 3 else mp - 9)" and d: "d = d'"
    using assms yd md by (simp_all add: civil_from_days_def era_def doe_def)
  have y': "(if m \<le> 2 then y - 1 else y) = yoe + 400 * era"
    using M unfolding y m by auto
  have mp': "(if m > 2 then m - 3 else m + 9) = mp"
    using M unfolding m by auto
  have e: "(yoe + 400 * era) div 400 = era" "(yoe + 400 * era) mod 400 = yoe"
    using Y by simp_all
  have "days_from_civil y m d = era * 146097 + doe - 719468"
    unfolding days_from_civil_def Let_def y' mp' e using Y M d by simp
  also have "\<dots> = z"
    unfolding era_def doe_def by simp
  finally show ?thesis using M unfolding m d by auto
qed

text \<open>Decimal fields are read back as the numbers they render.\<close>

lemma digit_char: "0 \<le> a \<Longrightarrow> a \<le> 9 \<Longrightarrow> of_char (char_of (48 + a)) = (48 + a :: int)"
  by simp

lemma isDigit_digit: "isDigit (char_of (48 + n mod 10 :: int))"
  by (simp add: isDigit_def digit_char)

lemma decimal_length: "length (decimal k n) = k"
  by (induction k arbitrary: n) simp_all

lemma decimal_digits: "list_all isDigit (decimal k n)"
  by (induction k arbitrary: n) (simp_all add: isDigit_digit)

lemma digitsValue_snoc: "digitsValue (xs @ [c]) = 10 * digitsValue xs + (of_char c - 48)"
  by (simp add: digitsValue_def)

lemma digitsValue_decimal: "digitsValue (decimal k n) = n mod 10 ^ k"
proof (induction k arbitrary: n)
  case 0
  then show ?case by (simp add: digitsValue_def)
next
  case (Suc k)
  have "digitsValue (decimal (Suc k) n) = 10 * (n div 10 mod 10 ^ k) + n mod 10"
    by (simp add: digitsValue_snoc Suc.IH digit_char)
  also have "\<dots> = n mod (10 * 10 ^ k)"
    by (simp add: zmod_zmult2_eq)
  finally show ?case by simp
qed

lemma number_decimal:
  assumes "0 < k" and "0 \<le> n" and "n < 10 ^ k"
  shows "number (decimal k n) = Some n"
proof -
  have "decimal k n \<noteq> []"
    using assms(1) decimal_length [of k n] by auto
  then show ?thesis
    using assms(2,3) by (simp add: number_def decimal_digits digitsValue_decimal)
qed

lemma decimal_2: "decimal 2 n = [char_of (48 + n div 10 mod 10), char_of (48 + n mod 10)]"
  by (simp add: numeral_2_eq_2)

lemma decimal_3:
  "decimal 3 n = [char_of (48 + n div 10 div 10 mod 10), char_of (48 + n div 10 mod 10),
                  char_of (48 + n mod 10)]"
  by (simp add: numeral_3_eq_3)

lemma number_2:
  assumes "0 \<le> x" and "x < 100"
  shows "number [char_of (48 + x div 10 mod 10), char_of (48 + x mod 10)] = Some x"
  using number_decimal [of 2 x] assms by (simp add: decimal_2)

lemma number_3:
  assumes "0 \<le> x" and "x < 1000"
  shows "number [char_of (48 + x div 10 div 10 mod 10), char_of (48 + x div 10 mod 10),
                 char_of (48 + x mod 10)] = Some x"
  using number_decimal [of 3 x] assms by (simp add: decimal_3)

lemma parse_fields_rest:
  assumes "number ys = Some Y" and "1 \<le> m" and "m \<le> 12" and "1 \<le> d" and "d \<le> 31"
    and "0 \<le> h" and "h < 24" and "0 \<le> mi" and "mi < 60" and "0 \<le> s" and "s < 60"
    and "0 \<le> ms" and "ms < 1000"
  shows "parse_fields sign ys
           (''-'' @ decimal 2 m @ ''-'' @ decimal 2 d @ ''T'' @ decimal 2 h @ '':''
              @ decimal 2 mi @ '':'' @ decimal 2 s @ ''.'' @ decimal 3 ms @ ''Z'')
         = TimeClip (days_from_civil (sign * Y) m d * 86400000
                      + h * 3600000 + mi * 60000 + s * 1000 + ms)"
proof -
  from assms have bm: "0 \<le> m" "m < 100" and bd: "0 \<le> d" "d < 100"
    and bh: "h < 100" and bmi: "mi < 100" and bs: "s < 100"
    by simp_all
  note n = number_2 [OF bm] number_2 [OF bd] number_2 [OF assms(6) bh]
    number_2 [OF assms(8) bmi] number_2 [OF assms(10) bs] number_3 [OF assms(12,13)]
  have "parse_fields sign ys
           (''-'' @ decimal 2 m @ ''-'' @ decimal 2 d @ ''T'' @ decimal 2 h @ '':''
              @ decimal 2 mi @ '':'' @ decimal 2 s @ ''.'' @ decimal 3 ms @ ''Z'')
        = (if 1 \<le> m \<and> m \<le> 12 \<and> 1 \<le> d \<and> d \<le> 31 \<and> h < 24 \<and> mi < 60 \<and> s < 60
           then TimeClip (days_from_civil (sign * Y) m d * 86400000
                            + h * 3600000 + mi * 60000 + s * 1000 + ms)
           else InvalidDate)"
    unfolding parse_fields_def decimal_2 decimal_3 by (simp add: n assms(1))
  then show ?thesis
    using assms by simp
qed

lemma time_fields:
  fixes r :: int
  assumes "0 \<le> r" and "r < 86400000"
  shows "0 \<le> r div 3600000 \<and> r div 3600000 < 24
       \<and> r div 3600000 * 3600000 + r div 60000 mod 60 * 60000 + r div 1000 mod 60 * 1000
           + r mod 1000 = r"
proof -
  define A where "A = r div 1000"
  define ms where "ms = r mod 1000"
  define B where "B = A div 60"
  define sec where "sec = A mod 60"
  define h where "h = B div 60"
  define mi where "mi = B mod 60"
  have a: "r div 60000 = B"
    using zdiv_zmult2_eq [of 60 r 1000] by (simp add: A_def B_def)
  have b: "r div 3600000 = h"
    using zdiv_zmult2_eq [of 60 r 60000] by (simp add: a h_def)
  have r1: "r = 1000 * A + ms" "0 \<le> ms" "ms < 1000"
    by (simp_all add: A_def ms_def)
  have r2: "A = 60 * B + sec" "0 \<le> sec" "sec < 60"
    by (simp_all add: B_def sec_def)
  have r3: "B = 60 * h + mi" "0 \<le> mi" "mi < 60"
    by (simp_all add: h_def mi_def)
  have h: "0 \<le> h" "h < 24"
    using assms r1 r2 r3 by linarith+
  have "h * 3600000 + mi * 60000 + sec * 1000 + ms = r"
    using r1(1) r2(1) r3(1) by simp
  with h show ?thesis
    unfolding b a by (simp add: mi_def sec_def ms_def A_def)
qed

lemma civil_year_bound:
  assumes "civil_from_days z = (y, m, d)" and "- 100000000 \<le> z" and "z \<le> 100000000"
  shows "- 1000000 < y \<and> y < 1000000"
proof -
  define era where "era = (z + 719468) div 146097"
  define doe where "doe = (z + 719468) mod 146097"
  obtain yoe doy where yd: "year_of_era doe = (yoe, doy)" by (cases "year_of_era doe")
  obtain mp d' where md: "month_of_year doy = (mp, d')" by (cases "month_of_year doy")
  have e: "z + 719468 = 146097 * era + doe" "0 \<le> doe" "doe < 146097"
    by (simp_all add: era_def doe_def)
  then have doe: "0 \<le> doe" "doe \<le> 146096" by simp_all
  have era: "- 680 \<le> era" "era \<le> 689"
    using assms(2,3) e by linarith+
  note Y = year_of_era_inverse [OF doe yd]
  have "y = yoe + 400 * era + (if mp < 10 then 0 else 1)"
    using assms(1) yd md by (simp add: civil_from_days_def era_def doe_def)
  then show ?thesis
    using Y era by (auto split: if_splits)
qed

lemma digit_not_sign: "isDigit c \<Longrightarrow> c \<noteq> CHR ''+'' \<and> c \<noteq> CHR ''-''"
  by (auto simp add: isDigit_def)

lemma Date_parse_iso_year:
  assumes "- 1000000 < y" and "y < 1000000"
  shows "\<exists>sign ys Y. Date_parse (iso_year y @ rest) = parse_fields sign ys rest
           \<and> number ys = Some Y \<and> sign * Y = y"
proof -
  consider "0 \<le> y \<and> y \<le> 9999" | "y < 0" | "9999 < y" by linarith
  then show ?thesis
  proof cases
    case 1
    obtain c cs where cs: "decimal 4 y = c # cs"
      using decimal_length [of 4 y] by (cases "decimal 4 y") simp_all
    have "isDigit c"
      using decimal_digits [of 4 y] by (simp add: cs)
    then have c: "c \<noteq> CHR ''+''" "c \<noteq> CHR ''-''"
      using digit_not_sign by blast+
    have "Date_parse (decimal 4 y @ rest)
            = parse_fields 1 (take 4 (decimal 4 y @ rest)) (drop 4 (decimal 4 y @ rest))"
      unfolding cs by (simp add: Date_parse_def c)
    also have "\<dots> = parse_fields 1 (decimal 4 y) rest"
      by (simp add: decimal_length)
    finally have "Date_parse (iso_year y @ rest) = parse_fields 1 (decimal 4 y) rest"
      using 1 by (simp add: iso_year_def)
    moreover have "number (decimal 4 y) = Some y"
      using 1 by (intro number_decimal) simp_all
    ultimately show ?thesis by (intro exI [of _ 1] exI [of _ "decimal 4 y"] exI [of _ y]) simp
  next
    case 2
    have "Date_parse (iso_year y @ rest) = parse_fields (- 1) (decimal 6 \<bar>y\<bar>) rest"
      using 2 by (simp add: iso_year_def Date_parse_def decimal_length)
    moreover have "number (decimal 6 \<bar>y\<bar>) = Some \<bar>y\<bar>"
      using assms 2 by (intro number_decimal) simp_all
    ultimately show ?thesis
      using 2 by (intro exI [of _ "- 1"] exI [of _ "decimal 6 \<bar>y\<bar>"] exI [of _ "\<bar>y\<bar>"]) simp
  next
    case 3
    have "Date_parse (iso_year y @ rest) = parse_fields 1 (decimal 6 \<bar>y\<bar>) rest"
      using 3 by (simp add: iso_year_def Date_parse_def decimal_length)
    moreover have "number (decimal 6 \<bar>y\<bar>) = Some \<bar>y\<bar>"
      using assms 3 by (intro number_decimal) simp_all
    ultimately show ?thesis
      using 3 by (intro exI [of _ 1] exI [of _ "decimal 6 \<bar>y\<bar>"] exI [of _ "\<bar>y\<bar>"]) simp
  qed
qed

lemma Date_parse_toISOString:
  assumes "\<bar>t\<bar> \<le> 8640000000000000"
  shows "Date_parse (Date_toISOString t) = Date t"
proof -
  define D where "D = t div 86400000"
  define r where "r = t mod 86400000"
  obtain y m d where ymd: "civil_from_days D = (y, m, d)" by (cases "civil_from_days D") auto
  have t: "t = 86400000 * D + r" "0 \<le> r" "r < 86400000"
    by (simp_all add: D_def r_def)
  have D: "- 100000000 \<le> D" "D \<le> 100000000"
    using assms t by linarith+
  note C = days_from_civil_inverse [OF ymd]
  note Yb = civil_year_bound [OF ymd D]
  note T = time_fields [OF t(2,3)]
  define rest where "rest = ''-'' @ decimal 2 m @ ''-'' @ decimal 2 d @ ''T''
      @ decimal 2 (r div 3600000) @ '':'' @ decimal 2 (r div 60000 mod 60) @ '':''
      @ decimal 2 (r div 1000 mod 60) @ ''.'' @ decimal 3 (r mod 1000) @ ''Z''"
  have str: "Date_toISOString t = iso_year y @ rest"
    by (simp add: Date_toISOString_def iso_date_def iso_time_def ymd rest_def
        D_def [symmetric] r_def [symmetric])
  obtain sign ys Y where p: "Date_parse (iso_year y @ rest) = parse_fields sign ys rest"
    and n: "number ys = Some Y" and sY: "sign * Y = y"
    using Date_parse_iso_year [of y rest] Yb by blast
  from T have sum: "r div 3600000 * 3600000 + r div 60000 mod 60 * 60000
      + r div 1000 mod 60 * 1000 + r mod 1000 = r"
    by simp
  have "days_from_civil (sign * Y) m d * 86400000 + r div 3600000 * 3600000
          + r div 60000 mod 60 * 60000 + r div 1000 mod 60 * 1000 + r mod 1000
      = D * 86400000 + (r div 3600000 * 3600000
          + r div 60000 mod 60 * 60000 + r div 1000 mod 60 * 1000 + r mod 1000)"
    using C by (simp add: sY)
  then have eq: "days_from_civil (sign * Y) m d * 86400000 + r div 3600000 * 3600000
          + r div 60000 mod 60 * 60000 + r div 1000 mod 60 * 1000 + r mod 1000
      = D * 86400000 + r"
    by (simp only: sum)
  have "parse_fields sign ys rest
      = TimeClip (days_from_civil (sign * Y) m d * 86400000 + r div 3600000 * 3600000
          + r div 60000 mod 60 * 60000 + r div 1000 mod 60 * 1000 + r mod 1000)"
    unfolding rest_def using C T by (intro parse_fields_rest [OF n]) simp_all
  also have "\<dots> = TimeClip (D * 86400000 + r)"
    by (simp only: eq)
  also have "\<dots> = Date t"
    using assms t(1) by (simp add: TimeClip_def)
  finally show ?thesis
    by (simp add: str p)
qed

text \<open>What \<open>parseInt10\<close> returns on digits and on negated digits.\<close>

lemma digit_int: "isDigit c \<Longrightarrow> 48 \<le> (of_char c :: int)"
  by (simp add: isDigit_def)

lemma digitsValue_nonneg_aux:
  "list_all isDigit z \<Longrightarrow> 0 \<le> a \<Longrightarrow> 0 \<le> foldl (\<lambda>acc c. 10 * acc + (of_char c - 48)) (a::int) z"
proof (induction z arbitrary: a)
  case Nil
  then show ?case by simp
next
  case (Cons c z)
  from Cons.prems have "48 \<le> (of_char c :: int)" by (simp add: digit_int)
  with Cons.prems have "0 \<le> 10 * a + (of_char c - 48)" by simp
  with Cons show ?case by simp
qed

lemma digitsValue_nonneg: "list_all isDigit z \<Longrightarrow> 0 \<le> digitsValue z"
  by (simp add: digitsValue_def digitsValue_nonneg_aux)

lemma parseInt10_negative:
  assumes "z \<noteq> []" and "list_all isDigit z"
  shows "parseInt10 (CHR ''-'' # z) = integerNumber (- 1) (digitsValue z)"
proof -
  have tw: "takeWhile isDigit z = z"
    using assms(2) by (simp add: list_all_iff)
  have "parseInt10 (CHR ''-'' # z) =
      (if takeWhile isDigit z = [] then NaN
       else integerNumber (- 1) (digitsValue (takeWhile isDigit z)))"
    by (simp add: parseInt10_def Let_def isWhiteSpace_def)
  also have "\<dots> = (if z = [] then NaN else integerNumber (- 1) (digitsValue z))"
    by (simp only: tw)
  finally show ?thesis
    using assms(1) by simp
qed

lemma parseInt10_digits:
  assumes "z \<noteq> []" and "list_all isDigit z"
  shows "parseInt10 z = integerNumber 1 (digitsValue z)"
proof -
  from assms(1) obtain c r where z: "z = c # r" by (cases z) auto
  with assms(2) have c: "isDigit c" by simp
  then have "48 \<le> (of_char c :: int)" by (rule digit_int)
  then have "int 48 \<le> int (of_char c)" by (simp add: of_nat_of_char)
  then have "48 \<le> (of_char c :: nat)" by (simp only: of_nat_le_iff)
  then have nws: "\<not> isWhiteSpace c" by (auto simp add: isWhiteSpace_def)
  from c have nm: "c \<noteq> CHR ''-''" and np: "c \<noteq> CHR ''+''"
    by (auto simp add: isDigit_def)
  have tw: "takeWhile isDigit (c # r) = c # r"
    using assms(2) z by (simp add: list_all_iff)
  have "parseInt10 (c # r) =
      (if takeWhile isDigit (c # r) = [] then NaN
       else integerNumber 1 (digitsValue (takeWhile isDigit (c # r))))"
    using nws nm np by (simp add: parseInt10_def Let_def del: takeWhile.simps)
  also have "\<dots> = integerNumber 1 (digitsValue (c # r))"
    by (simp only: tw) simp
  finally show ?thesis by (simp add: z)
qed

section \<open>State changes\<close>

text \<open>
  Claim C1, as the code has it: for every session and every requested target state,
  \<open>updateState\<close> sets the state to the requested one. It consults no transition table
  and has no failing outcome, so permitted and unpermitted pairs alike go through.
\<close>

theorem updateState_sets_state: "state (updateState s newState) = newState"
  by (simp add: updateState_def)

text \<open>
  Against C1 as stated: the completed session is moved back to Created, a pair the
  table does not permit, and the record changes.
\<close>

theorem updateState_ignores_table:
  "state session_done = COMPLETED \<and> \<not> spec_TransitionPolicy COMPLETED CREATED
   \<and> state (updateState session_done CREATED) = CREATED
   \<and> updateState session_done CREATED \<noteq> session_done"
proof -
  have a: "state session_done = COMPLETED"
    by (simp add: session_done_fields)
  have b: "state (updateState session_done CREATED) = CREATED"
    by (simp add: updateState_def)
  from a b have "updateState session_done CREATED \<noteq> session_done"
    by (metis SessionState.distinct(5))
  with a b show ?thesis by simp
qed

text \<open>
  Claim C10: \<open>updateState\<close> leaves every field but \<open>state\<close> as it was: sessionID,
  fileName, language, createdAt, expiresAt, filePath and analysisResult (and regSessionI).
\<close>

theorem updateState_frame:
  "sessionID (updateState s newState) = sessionID s
   \<and> regSessionI (updateState s newState) = regSessionI s
   \<and> fileName (updateState s newState) = fileName s
   \<and> language (updateState s newState) = language s
   \<and> createdAt (updateState s newState) = createdAt s
   \<and> expiresAt (updateState s newState) = expiresAt s
   \<and> filePath (updateState s newState) = filePath s
   \<and> analysisResult (updateState s newState) = analysisResult s"
  by (simp add: updateState_def)

section \<open>Construction\<close>

text \<open>
  Claim C2, as the code has it: construction never fails and validates nothing. For
  every input, an empty or missing fileName or language included, the constructor returns
  a record carrying the given fileName and language. Validation is the separate method
  \<open>validate\<close>, which the constructor does not call; it rejects every session whose
  fileName is empty or missing.
\<close>

theorem constructor_no_validation:
  "fileName (constructor w data) = data_fileName data
   \<and> language (constructor w data) = data_language data
   \<and> (\<not> truthy (data_fileName data) \<longrightarrow> \<not> validate (constructor w data))"
  by (simp add: constructor_def validate_def)

text \<open>The statement at an input with an empty fileName.\<close>

theorem constructor_no_validation_witness:
  "\<not> truthy (data_fileName (names '''' ''go'' :: string Partial_Session))
   \<and> fileName (constructor world0 (names '''' ''go'' :: string Partial_Session)) = Some ''''
   \<and> language (constructor world0 (names '''' ''go'' :: string Partial_Session)) = Some ''go''
   \<and> \<not> validate (constructor world0 (names '''' ''go'' :: string Partial_Session))"
  using constructor_no_validation [of world0 "names '''' ''go'' :: string Partial_Session"]
  by (simp add: names_def)

text \<open>
  Against C2 as stated: records are built from an empty fileName and from an empty
  language; \<open>validate\<close> accepts the record with the empty language and rejects a record
  whose fileName and language are both non-empty.
\<close>

theorem constructor_accepts_empty:
  "fileName (constructor world0 (names '''' ''go'' :: string Partial_Session)) = Some ''''
   \<and> language (constructor world0 (names ''a.go'' '''' :: string Partial_Session)) = Some ''''
   \<and> validate (constructor world0 (names ''a.go'' '''' :: string Partial_Session))
   \<and> \<not> validate (constructor world0 (names ''a.go'' ''go'' :: string Partial_Session))"
  by (simp add: constructor_def validate_def names_def world0_def)

text \<open>
  Claim C3, as the code has it: a session created with no state, createdAt or expiresAt
  override has state Created, createdAt equal to the clock reading of \<^verbatim>\<open>new Date()\<close>, and
  expiresAt equal to the later clock reading of \<^verbatim>\<open>Date.now()\<close> plus 24 hours (a constant
  of the constructor). It is createdAt plus 24 hours exactly when the two readings
  coincide (and the sum is in the range of a Date).
\<close>

theorem constructor_defaults:
  assumes "data_state data = None" and "data_createdAt data = None"
    and "data_expiresAt data = None"
  shows "state (constructor w data) = CREATED
    \<and> createdAt (constructor w data) = Date (clock_new_Date w)
    \<and> expiresAt (constructor w data) = TimeClip (clock_Date_now w + 86400000)
    \<and> (clock_Date_now w = clock_new_Date w \<and> \<bar>clock_new_Date w + 86400000\<bar> \<le> 8640000000000000
        \<longrightarrow> expiresAt (constructor w data) = Date (clock_new_Date w + 86400000))"
  using assms by (simp add: constructor_def TimeClip_def)

text \<open>The statement at \<open>world0\<close>, where both clock reads give the same millisecond.\<close>

theorem constructor_defaults_witness:
  "data_state (names ''main.py'' ''python'' :: string Partial_Session) = None
   \<and> data_createdAt (names ''main.py'' ''python'' :: string Partial_Session) = None
   \<and> data_expiresAt (names ''main.py'' ''python'' :: string Partial_Session) = None
   \<and> clock_Date_now world0 = clock_new_Date world0
   \<and> \<bar>clock_new_Date world0 + 86400000\<bar> \<le> 8640000000000000
   \<and> state session0 = CREATED
   \<and> createdAt session0 = Date 1700000000000
   \<and> expiresAt session0 = Date (1700000000000 + 86400000)"
  using constructor_defaults [of "names ''main.py'' ''python'' :: string Partial_Session" world0]
  by (simp add: names_def world0_def session0_def TimeClip_def)

text \<open>
  Against C3 as stated: when the clock ticks between the two reads, expiresAt is one
  millisecond more than createdAt plus 24 hours.
\<close>

theorem constructor_two_clock_reads:
  "createdAt (constructor world1 (names ''main.py'' ''python'' :: string Partial_Session))
     = Date 1700000000000
   \<and> expiresAt (constructor world1 (names ''main.py'' ''python'' :: string Partial_Session))
     = Date 1700086400001
   \<and> (1700086400001 :: int) \<noteq> 1700000000000 + 24 * 60 * 60 * 1000"
  by (simp add: constructor_def names_def world1_def TimeClip_def)

text \<open>
  Claim C7, as the code has it: for a session constructed without createdAt and
  expiresAt overrides, expiresAt is after createdAt provided the clock did not run
  backwards between the two reads and the expiry is in the range of a Date. Overrides
  are copied unchecked, by the constructor and by \<open>fromJSON\<close> alike: there expiresAt is
  after createdAt exactly when the supplied values are so ordered.
\<close>

theorem expiry_after_creation:
  "(data_createdAt data = None \<and> data_expiresAt data = None
      \<and> clock_new_Date w \<le> clock_Date_now w
      \<and> \<bar>clock_Date_now w + 86400000\<bar> \<le> 8640000000000000
      \<longrightarrow> date_gt (expiresAt (constructor w data)) (createdAt (constructor w data)))
   \<and> (data_createdAt data = Some c \<and> data_expiresAt data = Some e
      \<longrightarrow> date_gt (expiresAt (constructor w data)) (createdAt (constructor w data)) = date_gt e c)
   \<and> date_gt (expiresAt (fromJSON parse w j)) (createdAt (fromJSON parse w j))
      = date_gt (new_Date parse (json_expiresAt j)) (new_Date parse (json_createdAt j))"
  by (simp add: constructor_def fromJSON_def TimeClip_def)

text \<open>
  The statement at a construction without overrides in \<open>world1\<close>, and at the two
  rehydration inputs whose expiry lies before their creation.
\<close>

theorem expiry_after_creation_witness:
  "data_createdAt (names ''main.py'' ''python'' :: string Partial_Session) = None
   \<and> data_expiresAt (names ''main.py'' ''python'' :: string Partial_Session) = None
   \<and> clock_new_Date world1 \<le> clock_Date_now world1
   \<and> \<bar>clock_Date_now world1 + 86400000\<bar> \<le> 8640000000000000
   \<and> date_gt (expiresAt (constructor world1 (names ''main.py'' ''python'' :: string Partial_Session)))
        (createdAt (constructor world1 (names ''main.py'' ''python'' :: string Partial_Session)))
   \<and> data_createdAt rehydrated = Some (Date 1700000000000)
   \<and> data_expiresAt rehydrated = Some (Date 1600000000000)
   \<and> \<not> date_gt (expiresAt (constructor world1 rehydrated)) (createdAt (constructor world1 rehydrated))
   \<and> \<not> date_gt (expiresAt (fromJSON Date_parse world1 json_rehydrated))
          (createdAt (fromJSON Date_parse world1 json_rehydrated))"
  using expiry_after_creation
      [where data = "names ''main.py'' ''python'' :: string Partial_Session" and w = world1
        and parse = Date_parse and j = json_rehydrated]
    expiry_after_creation [where data = rehydrated and c = "Date 1700000000000"
      and e = "Date 1600000000000" and w = world1 and parse = Date_parse and j = json_rehydrated]
  by (simp add: names_def world1_def rehydrated_def json_rehydrated_def TimeClip_def)

text \<open>
  Against C7 as stated: a session rehydrated with an expiry before its creation is
  constructed as given, through the constructor and through \<open>fromJSON\<close>.
\<close>

theorem rehydrated_expiry_before_creation:
  "createdAt (constructor world0 rehydrated) = Date 1700000000000
   \<and> expiresAt (constructor world0 rehydrated) = Date 1600000000000
   \<and> \<not> date_gt (expiresAt (constructor world0 rehydrated)) (createdAt (constructor world0 rehydrated))
   \<and> createdAt (fromJSON Date_parse world0 json_rehydrated) = Date 1700000000000
   \<and> expiresAt (fromJSON Date_parse world0 json_rehydrated) = Date 1600000000000"
  by (simp add: constructor_def fromJSON_def rehydrated_def json_rehydrated_def names_def TimeClip_def)

text \<open>
  Claim C9: whatever the constructor is given, the constructed session has no
  analysisResult; this holds through \<open>fromJSON\<close> too, whether or not the JSON object
  carries one.
\<close>

theorem constructor_analysisResult_absent:
  "analysisResult (constructor w data) = None \<and> analysisResult (fromJSON parse w j) = None"
  by (simp add: constructor_def fromJSON_def)

section \<open>Expiry\<close>

text \<open>
  Claim C4: for every session and every clock reading \<open>now\<close>, \<open>isExpired\<close> is true if and
  only if \<open>now\<close> is greater than the time value of expiresAt (a comparison that is false
  when expiresAt is an Invalid Date).
\<close>

theorem isExpired_iff: "isExpired now s \<longleftrightarrow> (\<exists>e. expiresAt s = Date e \<and> now > e)"
  by (cases "expiresAt s") (simp_all add: isExpired_def)

text \<open>
  Claim C5, as the code has it: a session is treated as expired at every \<open>now\<close> strictly
  after expiresAt; at the boundary \<open>now = expiresAt\<close> it is not expired.
\<close>

theorem isExpired_strict:
  "expiresAt s = Date e \<Longrightarrow> (e < now \<longrightarrow> isExpired now s) \<and> \<not> isExpired e s"
  by (simp add: isExpired_def)

text \<open>The statement at \<open>session0\<close>, one millisecond after its expiry and at its expiry.\<close>

theorem isExpired_strict_witness:
  "expiresAt session0 = Date 1700086400000
   \<and> (1700086400000 :: int) < 1700086400001
   \<and> isExpired 1700086400001 session0 \<and> \<not> isExpired 1700086400000 session0"
  using isExpired_strict [of session0 1700086400000 1700086400001]
  by (simp add: session0_fields)

text \<open>Against C5 as stated: at \<open>now = expiresAt\<close> the check says not expired.\<close>

theorem isExpired_boundary:
  "expiresAt session0 = Date 1700086400000
   \<and> (1700086400000 :: int) \<ge> 1700086400000
   \<and> \<not> isExpired 1700086400000 session0"
  by (simp add: session0_fields isExpired_def)

section \<open>Serialisation\<close>

text \<open>
  With any formatter and parser: when the parser reads the formatter's output back at the
  session's two timestamps, the round trip returns the six serialised fields unchanged
  and the other three absent.
\<close>

lemma roundtrip_with_runtime:
  assumes "createdAt s = Date c" and "expiresAt s = Date e"
    and "parse (fmt c) = Date c" and "parse (fmt e) = Date e"
    and "sessionID s \<noteq> []"
  shows "roundtrip fmt parse w s =
           Inr (s\<lparr>regSessionI := None, filePath := None, analysisResult := None\<rparr>)"
  using assms
  by (cases s) (simp add: roundtrip_def toJSON_def fromJSON_def constructor_def)

text \<open>
  Claim C6, as the code has it: for every session with a non-empty sessionID and valid
  timestamps (time values within the range of a Date), \<open>fromJSON\<close> after \<open>toJSON\<close>, with
  the ISO 8601 strings of \<^verbatim>\<open>toISOString\<close> read back by \<^verbatim>\<open>new Date\<close>, returns the session
  with sessionID, fileName, language, state, createdAt and expiresAt as they were, the
  timestamps to the millisecond. filePath, analysisResult and regSessionI are not
  serialised and come back absent.
\<close>

theorem roundtrip_serialised_fields:
  assumes "createdAt s = Date c" and "\<bar>c\<bar> \<le> 8640000000000000"
    and "expiresAt s = Date e" and "\<bar>e\<bar> \<le> 8640000000000000"
    and "sessionID s \<noteq> []"
  shows "roundtrip Date_toISOString Date_parse w s =
           Inr (s\<lparr>regSessionI := None, filePath := None, analysisResult := None\<rparr>)"
  using assms(1,3) Date_parse_toISOString [OF assms(2)] Date_parse_toISOString [OF assms(4)]
    assms(5)
  by (rule roundtrip_with_runtime)

text \<open>The statement at the completed session.\<close>

theorem roundtrip_serialised_fields_witness:
  "createdAt session_done = Date 1700000000000 \<and> \<bar>1700000000000 :: int\<bar> \<le> 8640000000000000
   \<and> expiresAt session_done = Date 1700086400000 \<and> \<bar>1700086400000 :: int\<bar> \<le> 8640000000000000
   \<and> sessionID session_done \<noteq> []
   \<and> roundtrip Date_toISOString Date_parse world1 session_done =
         Inr (session_done\<lparr>regSessionI := None, filePath := None, analysisResult := None\<rparr>)
   \<and> Date_toISOString 1700000000000 = ''2023-11-14T22:13:20.000Z''
   \<and> Date_parse ''2023-11-14T22:13:20.000Z'' = Date 1700000000000"
  using roundtrip_serialised_fields [of session_done 1700000000000 1700086400000 world1]
  by (simp add: session_done_fields iso_created parse_created)

text \<open>
  Against C6 as stated: the completed session has a filePath and an analysisResult;
  after the round trip both are absent.
\<close>

theorem roundtrip_drops_filePath:
  "filePath session_done = Some ''/tmp/x'' \<and> analysisResult session_done = Some ''report''
   \<and> roundtrip Date_toISOString Date_parse world1 session_done =
         Inr (session_done\<lparr>filePath := None, analysisResult := None\<rparr>)
   \<and> roundtrip Date_toISOString Date_parse world1 session_done \<noteq> Inr session_done"
proof -
  have "roundtrip Date_toISOString Date_parse world1 session_done =
         Inr (session_done\<lparr>regSessionI := None, filePath := None, analysisResult := None\<rparr>)"
    by (rule roundtrip_with_runtime [where c = 1700000000000 and e = 1700086400000])
      (simp_all add: session_done_fields iso_created iso_expires parse_created parse_expires)
  moreover have "session_done\<lparr>regSessionI := None\<rparr> = session_done"
    using session_done_fields(9) by (cases session_done) simp
  ultimately have r: "roundtrip Date_toISOString Date_parse world1 session_done =
         Inr (session_done\<lparr>filePath := None, analysisResult := None\<rparr>)"
    by simp
  have "filePath (session_done\<lparr>filePath := None, analysisResult := None\<rparr>) \<noteq> filePath session_done"
    by (simp add: session_done_fields)
  then have "session_done\<lparr>filePath := None, analysisResult := None\<rparr> \<noteq> session_done"
    by metis
  with r show ?thesis by (simp add: session_done_fields)
qed

section \<open>Configuration\<close>

text \<open>
  Claim C8, as the code has it: \<open>sessionTimeoutHours\<close> is 24 and
  \<open>sessionCleanupIntervalHours\<close> is 1 when their variables are unset. A variable set to a
  run of digits whose value is at most 2^53 yields that number (so \<^verbatim>\<open>0\<close> yields 0), and
  one set to a minus sign and such a run of digits yields the negated number, which is
  not positive (negative zero when the digits are zero): the loader checks no sign and
  rejects nothing.
\<close>

theorem config_defaults_no_check:
  "(env ''SESSION_TIMEOUT_HOURS'' = None \<longrightarrow> sessionTimeoutHours env = Number 24)
   \<and> (env ''SESSION_CLEANUP_INTERVAL_HOURS'' = None \<longrightarrow> sessionCleanupIntervalHours env = Number 1)
   \<and> (z \<noteq> [] \<and> list_all isDigit z \<and> digitsValue z \<le> 9007199254740992 \<longrightarrow>
        (env ''SESSION_TIMEOUT_HOURS'' = Some z \<longrightarrow> sessionTimeoutHours env = Number (digitsValue z))
      \<and> (env ''SESSION_CLEANUP_INTERVAL_HOURS'' = Some z
            \<longrightarrow> sessionCleanupIntervalHours env = Number (digitsValue z))
      \<and> (env ''SESSION_TIMEOUT_HOURS'' = Some (CHR ''-'' # z)
            \<longrightarrow> sessionTimeoutHours env =
                (if digitsValue z = 0 then NegativeZero else Number (- digitsValue z)))
      \<and> (env ''SESSION_CLEANUP_INTERVAL_HOURS'' = Some (CHR ''-'' # z)
            \<longrightarrow> sessionCleanupIntervalHours env =
                (if digitsValue z = 0 then NegativeZero else Number (- digitsValue z)))
      \<and> - digitsValue z \<le> 0)"
  by (auto simp add: sessionTimeoutHours_def sessionCleanupIntervalHours_def getEnvNumber_def
      parseInt10_negative parseInt10_digits digitsValue_nonneg integerNumber_def)

text \<open>
  The statement with every variable unset, with both set to \<^verbatim>\<open>0\<close>, with both set to
  \<^verbatim>\<open>-5\<close> and with both set to \<^verbatim>\<open>-0\<close>.
\<close>

theorem config_defaults_no_check_witness:
  "env_unset ''SESSION_TIMEOUT_HOURS'' = None \<and> sessionTimeoutHours env_unset = Number 24
   \<and> env_unset ''SESSION_CLEANUP_INTERVAL_HOURS'' = None
   \<and> sessionCleanupIntervalHours env_unset = Number 1
   \<and> ''0'' \<noteq> [] \<and> list_all isDigit ''0'' \<and> digitsValue ''0'' \<le> 9007199254740992
   \<and> ''5'' \<noteq> [] \<and> list_all isDigit ''5'' \<and> digitsValue ''5'' \<le> 9007199254740992
   \<and> env_zero ''SESSION_TIMEOUT_HOURS'' = Some ''0'' \<and> sessionTimeoutHours env_zero = Number 0
   \<and> env_zero ''SESSION_CLEANUP_INTERVAL_HOURS'' = Some ''0''
   \<and> sessionCleanupIntervalHours env_zero = Number 0
   \<and> env_negative ''SESSION_TIMEOUT_HOURS'' = Some (CHR ''-'' # ''5'')
   \<and> sessionTimeoutHours env_negative = Number (- 5)
   \<and> env_negative ''SESSION_CLEANUP_INTERVAL_HOURS'' = Some (CHR ''-'' # ''5'')
   \<and> sessionCleanupIntervalHours env_negative = Number (- 5)
   \<and> env_negative_zero ''SESSION_TIMEOUT_HOURS'' = Some (CHR ''-'' # ''0'')
   \<and> sessionTimeoutHours env_negative_zero = NegativeZero
   \<and> env_negative_zero ''SESSION_CLEANUP_INTERVAL_HOURS'' = Some (CHR ''-'' # ''0'')
   \<and> sessionCleanupIntervalHours env_negative_zero = NegativeZero"
  using config_defaults_no_check [of env_unset "''5''"]
    config_defaults_no_check [of env_zero "''0''"]
    config_defaults_no_check [of env_negative "''5''"]
    config_defaults_no_check [of env_negative_zero "''0''"]
  by (simp add: env_unset_def env_zero_def env_negative_def env_negative_zero_def
      isDigit_def digitsValue_def)

text \<open>
  Against C8 as stated: a timeout of \<^verbatim>\<open>-5\<close> and a cleanup interval of \<^verbatim>\<open>0\<close> are loaded
  as the numbers -5 and 0.
\<close>

theorem config_accepts_non_positive:
  "sessionTimeoutHours env_negative = Number (- 5)
   \<and> sessionCleanupIntervalHours env_zero = Number 0"
  by (simp add: sessionTimeoutHours_def sessionCleanupIntervalHours_def getEnvNumber_def
      env_negative_def env_zero_def parseInt10_def integerNumber_def isWhiteSpace_def
      isDigit_def digitsValue_def)

end
